theory Spec2Isabelle
  imports Main
begin

section \<open>Python values, exceptions and the shared state of the translator module\<close>

text \<open>
  The module \<^verbatim>\<open>translator.py\<close> is a thin wrapper around a pretrained model and its
  tokenizer. Its own code is: the module-level statements (lines 9-20 and the three
  decorated \<^verbatim>\<open>def\<close>s), and the bodies of \<^verbatim>\<open>translate\<close>, \<^verbatim>\<open>fill_mask\<close> and
  \<^verbatim>\<open>supported_languages\<close>. Everything the bodies call in \<^verbatim>\<open>transformers\<close>,
  \<^verbatim>\<open>torch\<close>, \<^verbatim>\<open>traceback\<close> and \<^verbatim>\<open>jaseci\<close> is outside the repository's sources and
  is taken as a parameter (the record \<open>library\<close> below).
\<close>

text \<open>The values a module-level name of this file can be bound to: a list of strings
  (line 20) or a function object (a \<^verbatim>\<open>def\<close>), named by the name of its \<^verbatim>\<open>def\<close>.\<close>

datatype pyval = PyList "string list" | PyFunction string

text \<open>An exception object: its class name and its message, \<^verbatim>\<open>str(e)\<close>. Every
  exception of the model is an instance of \<^verbatim>\<open>Exception\<close>, which is what the handlers of
  lines 52 and 86 catch; \<^verbatim>\<open>KeyboardInterrupt\<close> and \<^verbatim>\<open>SystemExit\<close> are not modelled.\<close>

datatype exn = Exn (exn_class: string) (exn_msg: string)

definition ValueError :: "string \<Rightarrow> exn" where
  "ValueError msg = Exn ''ValueError'' msg"

definition TypeError :: "string \<Rightarrow> exn" where
  "TypeError msg = Exn ''TypeError'' msg"

definition NameError :: "string \<Rightarrow> exn" where
  "NameError name = Exn ''NameError'' (''name '' @ [CHR 0x27] @ name @ [CHR 0x27] @ '' is not defined'')"

text \<open>\<^verbatim>\<open>str(n)\<close> for a natural number: its decimal digits.\<close>

fun show_nat :: "nat \<Rightarrow> string" where
  "show_nat n =
     (if n < 10 then [char_of (48 + n)] else show_nat (n div 10) @ [char_of (48 + n mod 10)])"

declare show_nat.simps [simp del]

text \<open>\<^verbatim>\<open>repr(s)\<close> for a string of code points below 256: single quotes, or double quotes
  when the string holds a single quote and no double quote; the backslash and the chosen
  quote are escaped, tab, newline and carriage return are written \<^verbatim>\<open>\t\<close>, \<^verbatim>\<open>\n\<close>,
  \<^verbatim>\<open>\r\<close>, and every other character that is not printable is written \<^verbatim>\<open>\xNN\<close>.\<close>

definition printable :: "char \<Rightarrow> bool" where
  "printable c = (let n = (of_char c :: nat) in
     (32 \<le> n \<and> n < 127) \<or> (161 \<le> n \<and> n \<noteq> 173))"

definition hex_digit :: "nat \<Rightarrow> char" where
  "hex_digit n = (if n < 10 then char_of (48 + n) else char_of (87 + n))"

definition repr_char :: "char \<Rightarrow> char \<Rightarrow> string" where
  "repr_char q c =
     (if c = CHR 0x5C then [CHR 0x5C, CHR 0x5C]
      else if c = q then [CHR 0x5C, q]
      else if c = CHR 0x09 then [CHR 0x5C, CHR ''t'']
      else if c = CHR 0x0A then [CHR 0x5C, CHR ''n'']
      else if c = CHR 0x0D then [CHR 0x5C, CHR ''r'']
      else if printable c then [c]
      else [CHR 0x5C, CHR ''x'', hex_digit ((of_char c :: nat) div 16),
            hex_digit ((of_char c :: nat) mod 16)])"

definition py_repr :: "string \<Rightarrow> string" where
  "py_repr s =
     (let q = (if CHR 0x27 \<in> set s \<and> CHR 0x22 \<notin> set s then CHR 0x22 else CHR 0x27)
      in [q] @ concat (map (repr_char q) s) @ [q])"

text \<open>\<^verbatim>\<open>str(KeyError(k))\<close> is \<^verbatim>\<open>repr(k)\<close>.\<close>

definition KeyError :: "string \<Rightarrow> exn" where
  "KeyError k = Exn ''KeyError'' (py_repr k)"

definition IndexError :: "string \<Rightarrow> exn" where
  "IndexError msg = Exn ''IndexError'' msg"

definition RuntimeError :: "string \<Rightarrow> exn" where
  "RuntimeError msg = Exn ''RuntimeError'' msg"

text \<open>\<^verbatim>\<open>fastapi.HTTPException(status_code=..., detail=...)\<close>.\<close>

record http_exception =
  status_code :: int
  detail :: string

text \<open>The argument \<^verbatim>\<open>text: Union[str, List[str]]\<close> of \<^verbatim>\<open>translate\<close>.\<close>

datatype text_arg = Single string | Batch "string list"

text \<open>The fields of the tokenizer object that the module reads or writes. The dictionary
  \<^verbatim>\<open>lang_code_to_id\<close> is an association list in insertion order (its keys are distinct,
  as a dictionary's are).\<close>

record tokenizer_obj =
  lang_code_to_id :: "(string \<times> int) list"
  src_lang :: string
  mask_token_id :: int

text \<open>What \<^verbatim>\<open>tokenizer(text, return_tensors="pt")\<close> returns.\<close>

record batch_encoding =
  input_ids :: "int list list"
  attention_mask :: "int list list"

text \<open>The calls into the model and the tokenizer, recorded in the order they are made.\<close>

datatype call =
    TokenizerCall "string list" bool
  | GenerateCall batch_encoding int
  | BatchDecodeCall "int list list"
  | ForwardCall "int list list"
  | DecodeCall "int list"

text \<open>The process-wide state: the module's global names, the model handle (of an
  arbitrary type \<open>'m\<close>), the tokenizer, what has been printed, and the calls made into
  the library so far. The names \<^verbatim>\<open>model\<close> and \<^verbatim>\<open>tokenizer\<close> are bound once at line 19
  and no later statement of the file rebinds them, so they are fields of their own.\<close>

record 'm world =
  globals :: "string \<rightharpoonup> pyval"
  model :: 'm
  tokenizer :: tokenizer_obj
  stdout :: "string list"
  calls :: "call list"

text \<open>The library, as parameters. \<open>'r\<close> is the type of the scalars of a tensor of
  logits. \<open>jaseci_action\<close> is the decorator of lines 23, 57 and 91, applied to the function
  object of the \<^verbatim>\<open>def\<close>; \<open>tokenizer_call\<close> takes the flag \<^verbatim>\<open>add_special_tokens\<close>;
  \<open>topk\<close> returns the pair (values, indices) of \<^verbatim>\<open>Tensor.topk\<close>; \<open>format_exc\<close> is the
  text \<^verbatim>\<open>traceback.format_exc()\<close> gives while the exception is being handled.\<close>

record ('m, 'r) library =
  jaseci_action :: "pyval \<Rightarrow> pyval"
  tokenizer_call :: "tokenizer_obj \<Rightarrow> string list \<Rightarrow> bool \<Rightarrow> exn + batch_encoding"
  generate :: "'m \<Rightarrow> batch_encoding \<Rightarrow> int \<Rightarrow> exn + int list list"
  batch_decode :: "tokenizer_obj \<Rightarrow> int list list \<Rightarrow> exn + string list"
  forward :: "'m \<Rightarrow> int list list \<Rightarrow> exn + 'r list list list"
  softmax :: "'r list \<Rightarrow> 'r list"
  topk :: "'r list \<Rightarrow> int \<Rightarrow> exn + ('r list \<times> int list)"
  decode :: "tokenizer_obj \<Rightarrow> int list \<Rightarrow> exn + string"
  format_exc :: "exn \<Rightarrow> string"

section \<open>Computations that may raise and that change the state\<close>

type_synonym ('m, 'a) py = "'m world \<Rightarrow> (exn + 'a) \<times> 'm world"

definition returnP :: "'a \<Rightarrow> ('m, 'a) py" where
  "returnP x = (\<lambda>w. (Inr x, w))"

definition raiseP :: "exn \<Rightarrow> ('m, 'a) py" where
  "raiseP e = (\<lambda>w. (Inl e, w))"

definition bindP :: "('m, 'a) py \<Rightarrow> ('a \<Rightarrow> ('m, 'b) py) \<Rightarrow> ('m, 'b) py" where
  "bindP c f = (\<lambda>w. case c w of (Inl e, w') \<Rightarrow> (Inl e, w') | (Inr x, w') \<Rightarrow> f x w')"

text \<open>A value or an exception computed without touching the state.\<close>

definition liftP :: "exn + 'a \<Rightarrow> ('m, 'a) py" where
  "liftP r = (\<lambda>w. (r, w))"

text \<open>Reading a global name; an unbound name raises \<^verbatim>\<open>NameError\<close>.\<close>

definition load_global :: "string \<Rightarrow> ('m, pyval) py" where
  "load_global name = (\<lambda>w. case globals w name of
      None \<Rightarrow> (Inl (NameError name), w)
    | Some v \<Rightarrow> (Inr v, w))"

text \<open>A call into the library: the call is recorded, then its result or its exception
  is what the computation continues with. The library is taken to leave the global names,
  the model handle and the fields of the tokenizer as they are: what a call does inside
  the library is not part of this file's code.\<close>

definition library_call :: "call \<Rightarrow> ('m world \<Rightarrow> exn + 'a) \<Rightarrow> ('m, 'a) py" where
  "library_call c f = (\<lambda>w. (f w, w\<lparr>calls := calls w @ [c]\<rparr>))"

section \<open>Built-in operations of Python and of tensors that the bodies use\<close>

text \<open>\<^verbatim>\<open>x in v\<close>: membership in a list; a function object has neither
  \<^verbatim>\<open>__contains__\<close> nor \<^verbatim>\<open>__iter__\<close>, and the test raises \<^verbatim>\<open>TypeError\<close>.\<close>

definition not_iterable_msg :: string where
  "not_iterable_msg = ''argument of type '' @ [CHR 0x27] @ ''function'' @ [CHR 0x27] @ '' is not iterable''"

fun py_in :: "string \<Rightarrow> pyval \<Rightarrow> exn + bool" where
  "py_in x (PyList xs) = Inr (x \<in> set xs)"
| "py_in x (PyFunction f) = Inl (TypeError not_iterable_msg)"

text \<open>\<^verbatim>\<open>d[k]\<close> on a dictionary: \<^verbatim>\<open>KeyError\<close> when the key is absent.\<close>

definition dict_getitem :: "(string \<times> int) list \<Rightarrow> string \<Rightarrow> exn + int" where
  "dict_getitem d k = (case map_of d k of None \<Rightarrow> Inl (KeyError k) | Some v \<Rightarrow> Inr v)"

text \<open>\<^verbatim>\<open>xs[i]\<close> with a non-negative index: \<^verbatim>\<open>IndexError\<close> out of range.\<close>

definition getitem :: "'a list \<Rightarrow> nat \<Rightarrow> exn + 'a" where
  "getitem xs i = (if i < length xs then Inr (xs ! i) else Inl (IndexError ''index out of range''))"

text \<open>\<^verbatim>\<open>(row == v).nonzero()\<close>: the positions of the row that hold \<open>v\<close>, in order.\<close>

definition nonzero_eq :: "int list \<Rightarrow> int \<Rightarrow> nat list" where
  "nonzero_eq row v = filter (\<lambda>i. row ! i = v) [0 ..< length row]"

text \<open>\<^verbatim>\<open>.item()\<close>: the single element of a tensor; a tensor of another number of
  elements raises \<^verbatim>\<open>RuntimeError\<close>, its message naming that number.\<close>

fun item :: "nat list \<Rightarrow> exn + nat" where
  "item [i] = Inr i"
| "item xs = Inl (RuntimeError (''a Tensor with '' @ show_nat (length xs)
      @ '' elements cannot be converted to Scalar''))"

text \<open>\<^verbatim>\<open>str.split()\<close> without arguments: the maximal runs of characters that are not
  whitespace. Characters are code points below 256.\<close>

definition is_space :: "char \<Rightarrow> bool" where
  "is_space c = (of_char c \<in> set [9, 10, 11, 12, 13, 28, 29, 30, 31, 32, 133, 160 :: nat])"

fun split_from :: "string \<Rightarrow> string \<Rightarrow> string list" where
  "split_from cur [] = (if cur = [] then [] else [cur])"
| "split_from cur (c # cs) =
     (if is_space c then (if cur = [] then split_from [] cs else cur # split_from [] cs)
      else split_from (cur @ [c]) cs)"

definition py_split :: "string \<Rightarrow> string list" where
  "py_split s = split_from [] s"

section \<open>The module-level statements\<close>

text \<open>An assignment to a global name, and a decorated \<^verbatim>\<open>def\<close>: the name is bound to
  what the decorator returns for the new function object.\<close>

definition assign_global :: "string \<Rightarrow> pyval \<Rightarrow> 'm world \<Rightarrow> 'm world" where
  "assign_global name v w = w\<lparr>globals := (globals w)(name \<mapsto> v)\<rparr>"

definition decorated_def :: "('m, 'r) library \<Rightarrow> string \<Rightarrow> 'm world \<Rightarrow> 'm world" where
  "decorated_def L name w = assign_global name (jaseci_action L (PyFunction name)) w"

text \<open>The state after lines 9-20: \<^verbatim>\<open>setup\<close> is defined, \<open>m\<close> and \<open>tk\<close> are the model and
  the tokenizer that \<^verbatim>\<open>setup()\<close> loaded, and \<^verbatim>\<open>supported_languages\<close> is the list of the
  keys of the tokenizer's language table.\<close>

definition after_line_20 :: "'m \<Rightarrow> tokenizer_obj \<Rightarrow> 'm world" where
  "after_line_20 m tk =
     assign_global ''supported_languages'' (PyList (map fst (lang_code_to_id tk)))
       (assign_global ''setup'' (PyFunction ''setup'')
          \<lparr>globals = Map.empty, model = m, tokenizer = tk, stdout = [], calls = []\<rparr>)"

text \<open>The state once lines 23-89 have run: \<^verbatim>\<open>translate\<close> and \<^verbatim>\<open>fill_mask\<close> are
  defined and the name \<^verbatim>\<open>supported_languages\<close> still holds the list. The file makes no
  call in this state.\<close>

definition before_line_91 :: "('m, 'r) library \<Rightarrow> 'm \<Rightarrow> tokenizer_obj \<Rightarrow> 'm world" where
  "before_line_91 L m tk =
     decorated_def L ''fill_mask'' (decorated_def L ''translate'' (after_line_20 m tk))"

text \<open>The state once the whole file has run: the \<^verbatim>\<open>def\<close> of lines 91-99 binds the name
  \<^verbatim>\<open>supported_languages\<close> again.\<close>

definition module_init :: "('m, 'r) library \<Rightarrow> 'm \<Rightarrow> tokenizer_obj \<Rightarrow> 'm world" where
  "module_init L m tk = decorated_def L ''supported_languages'' (before_line_91 L m tk)"

section \<open>The three operations\<close>

text \<open>\<^verbatim>\<open>tokenizer.src_lang = src_lang\<close> (line 44).\<close>

definition set_src_lang :: "string \<Rightarrow> ('m, unit) py" where
  "set_src_lang l = (\<lambda>w. (Inr (), w\<lparr>tokenizer := (tokenizer w)\<lparr>src_lang := l\<rparr>\<rparr>))"

text \<open>The \<^verbatim>\<open>try\<close> block of \<^verbatim>\<open>translate\<close>, lines 37-51.\<close>

definition translate_body ::
  "('m, 'r) library \<Rightarrow> text_arg \<Rightarrow> string \<Rightarrow> string \<Rightarrow> ('m, string list) py" where
  "translate_body L text src tgt =
     bindP (load_global ''supported_languages'') (\<lambda>sl.
     bindP (liftP (py_in src sl)) (\<lambda>src_ok.
     if \<not> src_ok then raiseP (ValueError (''Unsupported source language: '' @ src)) else
     bindP (load_global ''supported_languages'') (\<lambda>sl'.
     bindP (liftP (py_in tgt sl')) (\<lambda>tgt_ok.
     if \<not> tgt_ok then raiseP (ValueError (''Unsupported target language: '' @ tgt)) else
     let texts = (case text of Single s \<Rightarrow> [s] | Batch ss \<Rightarrow> ss) in
     bindP (set_src_lang src) (\<lambda>_.
     bindP (\<lambda>w. liftP (dict_getitem (lang_code_to_id (tokenizer w)) tgt) w) (\<lambda>forced_bos_token_id.
     bindP (library_call (TokenizerCall texts True)
              (\<lambda>w. tokenizer_call L (tokenizer w) texts True)) (\<lambda>encoded.
     bindP (library_call (GenerateCall encoded forced_bos_token_id)
              (\<lambda>w. generate L (model w) encoded forced_bos_token_id)) (\<lambda>generated_tokens.
     library_call (BatchDecodeCall generated_tokens)
       (\<lambda>w. batch_decode L (tokenizer w) generated_tokens)))))))))"

text \<open>\<^verbatim>\<open>except Exception as e\<close> (lines 52-54 and 86-88): the trace is printed and an
  \<^verbatim>\<open>HTTPException\<close> with status 500 and detail \<^verbatim>\<open>str(e)\<close> is raised in its place.\<close>

definition except_http_500 ::
  "('m, 'r) library \<Rightarrow> ('m, 'a) py \<Rightarrow> 'm world \<Rightarrow> (http_exception + 'a) \<times> 'm world" where
  "except_http_500 L body = (\<lambda>w. case body w of
      (Inr x, w') \<Rightarrow> (Inr x, w')
    | (Inl e, w') \<Rightarrow>
        (Inl \<lparr>status_code = 500, detail = exn_msg e\<rparr>,
         w'\<lparr>stdout := stdout w' @ [format_exc L e]\<rparr>))"

definition translate ::
  "('m, 'r) library \<Rightarrow> text_arg \<Rightarrow> string \<Rightarrow> string \<Rightarrow> 'm world
     \<Rightarrow> (http_exception + string list) \<times> 'm world" where
  "translate L text src tgt = except_http_500 L (translate_body L text src tgt)"

text \<open>The \<^verbatim>\<open>try\<close> block of \<^verbatim>\<open>fill_mask\<close>, lines 71-85.\<close>

definition fill_mask_body ::
  "('m, 'r) library \<Rightarrow> string \<Rightarrow> string \<Rightarrow> int \<Rightarrow> ('m, string list) py" where
  "fill_mask_body L text src k =
     bindP (load_global ''supported_languages'') (\<lambda>sl.
     bindP (liftP (py_in src sl)) (\<lambda>src_ok.
     if \<not> src_ok then raiseP (ValueError (''Unsupported source language: '' @ src)) else
     let text' = ''</s> '' @ text @ '' </s> '' @ src in
     bindP (library_call (TokenizerCall [text'] False)
              (\<lambda>w. tokenizer_call L (tokenizer w) [text'] False)) (\<lambda>encoded.
     let ids = input_ids encoded in
     bindP (library_call (ForwardCall ids) (\<lambda>w. forward L (model w) ids)) (\<lambda>logits.
     bindP (liftP (getitem ids 0)) (\<lambda>row.
     bindP (\<lambda>w. liftP (item (nonzero_eq row (mask_token_id (tokenizer w)))) w) (\<lambda>masked_index.
     bindP (liftP (getitem logits 0)) (\<lambda>logits0.
     bindP (liftP (getitem logits0 masked_index)) (\<lambda>at_mask.
     let probs = softmax L at_mask in
     bindP (liftP (topk L probs k)) (\<lambda>(_, predictions).
     bindP (library_call (DecodeCall predictions)
              (\<lambda>w. decode L (tokenizer w) predictions)) (\<lambda>decoded.
     returnP (py_split decoded)))))))))))"

definition fill_mask ::
  "('m, 'r) library \<Rightarrow> string \<Rightarrow> string \<Rightarrow> int \<Rightarrow> 'm world
     \<Rightarrow> (http_exception + string list) \<times> 'm world" where
  "fill_mask L text src k = except_http_500 L (fill_mask_body L text src k)"

text \<open>\<^verbatim>\<open>supported_languages()\<close>, line 99: the value of the global name, with no
  \<^verbatim>\<open>try\<close> around it.\<close>

definition supported_languages :: "('m, pyval) py" where
  "supported_languages = load_global ''supported_languages''"

section \<open>What an operation may change\<close>

text \<open>The shared state is the global bindings (the supported-language list among them),
  the model handle and the tokenizer. \<open>shared_unchanged\<close>: none of them differs.\<close>

definition shared_unchanged :: "'m world \<Rightarrow> 'm world \<Rightarrow> bool" where
  "shared_unchanged w w' =
     (globals w' = globals w \<and> model w' = model w \<and> tokenizer w' = tokenizer w)"

text \<open>The checks of lines 37-40 let the call through: the name is bound to a list that
  holds both codes.\<close>

definition language_checks_pass :: "'m world \<Rightarrow> string \<Rightarrow> string \<Rightarrow> bool" where
  "language_checks_pass w src tgt =
     (case globals w ''supported_languages'' of
        Some (PyList xs) \<Rightarrow> src \<in> set xs \<and> tgt \<in> set xs
      | _ \<Rightarrow> False)"

section \<open>What the operations rely on from the library\<close>






section \<open>A concrete tokenizer and library, for evaluating the operations\<close>

text \<open>Two languages of the language table of mBART-50 with their token ids, and
  stand-ins for the library calls: the tokenizer maps each word to its length and the word
  \<^verbatim>\<open><mask>\<close> to the mask token; \<open>demo_topk\<close> gives the positions of the \<open>k\<close> largest
  values, largest first, and raises when \<open>k\<close> is out of range; generation puts the
  forced first token before the tokens of the input row; decoding writes token \<open>i\<close> as
  the word \<^verbatim>\<open>tok\<close>\<open>i\<close> after a space, and decoding a row of a batch leaves out the
  special tokens (the ids from 250000 on). The decorator hands back the function it
  is given.\<close>

definition demo_topk :: "int list \<Rightarrow> int \<Rightarrow> exn + (int list \<times> int list)" where
  "demo_topk v k =
     (if k < 0 \<or> length v < nat k then Inl (RuntimeError ''selected index k out of range'')
      else let idxs = take (nat k) (sort_key (\<lambda>i. - (v ! i)) [0 ..< length v])
           in Inr (map (\<lambda>i. v ! i) idxs, map int idxs))"

definition demo_piece :: "int \<Rightarrow> string" where
  "demo_piece i = '' tok'' @ show_nat (nat i)"

definition demo_decode_row :: "int list \<Rightarrow> string" where
  "demo_decode_row row = concat (map demo_piece (filter (\<lambda>i. i < 250000) row))"

definition demo_tokenizer :: tokenizer_obj where
  "demo_tokenizer =
     \<lparr>lang_code_to_id = [(''en_XX'', 250004), (''fr_XX'', 250008)],
      src_lang = ''en_XX'', mask_token_id = 250053\<rparr>"

definition demo_library :: "(unit, int) library" where
  "demo_library =
     \<lparr>jaseci_action = (\<lambda>f. f),
      tokenizer_call = (\<lambda>tk texts special.
         Inr \<lparr>input_ids = map (\<lambda>s. map (\<lambda>word.
                  if word = ''<mask>'' then mask_token_id tk else int (length word))
                  (py_split s)) texts,
              attention_mask = map (\<lambda>s. map (\<lambda>word. 1) (py_split s)) texts\<rparr>),
      generate = (\<lambda>m enc bos. Inr (map (\<lambda>row. bos # row) (input_ids enc))),
      batch_decode = (\<lambda>tk rows. Inr (map demo_decode_row rows)),
      forward = (\<lambda>m ids. Inr (map (map (\<lambda>t. [3, 1, 2])) ids)),
      softmax = (\<lambda>v. v),
      topk = demo_topk,
      decode = (\<lambda>tk ids. Inr (concat (map demo_piece ids))),
      format_exc = (\<lambda>e. ''Traceback (most recent call last): '' @ exn_class e @ '': '' @ exn_msg e)\<rparr>"

text \<open>The state of the process once the module has been imported.\<close>

definition loaded :: "unit world" where
  "loaded = module_init demo_library () demo_tokenizer"

section \<open>What the module-level statements bind\<close>

lemma after_line_20_binding:
  "globals (after_line_20 m tk) ''supported_languages''
     = Some (PyList (map fst (lang_code_to_id tk)))"
  by (simp add: after_line_20_def assign_global_def)

lemma module_init_binding:
  "globals (module_init L m tk) ''supported_languages''
     = Some (jaseci_action L (PyFunction ''supported_languages''))"
  by (simp add: module_init_def before_line_91_def decorated_def_def assign_global_def)

lemma loaded_binding:
  "globals loaded ''supported_languages'' = Some (PyFunction ''supported_languages'')"
  by (simp add: loaded_def module_init_binding demo_library_def)

lemma loaded_stdout: "stdout loaded = []"
  by (simp add: loaded_def module_init_def before_line_91_def decorated_def_def assign_global_def
      after_line_20_def)

lemma loaded_calls: "calls loaded = []"
  by (simp add: loaded_def module_init_def before_line_91_def decorated_def_def assign_global_def
      after_line_20_def)

section \<open>The language check against a function object\<close>

lemma translate_body_function_binding:
  assumes "globals w ''supported_languages'' = Some (PyFunction f)"
  shows "translate_body L text src tgt w = (Inl (TypeError not_iterable_msg), w)"
  using assms by (simp add: translate_body_def bindP_def load_global_def liftP_def)

lemma fill_mask_body_function_binding:
  assumes "globals w ''supported_languages'' = Some (PyFunction f)"
  shows "fill_mask_body L text src k w = (Inl (TypeError not_iterable_msg), w)"
  using assms by (simp add: fill_mask_body_def bindP_def load_global_def liftP_def)

lemma translate_function_binding:
  assumes "globals w ''supported_languages'' = Some (PyFunction f)"
  shows "translate L text src tgt w =
     (Inl \<lparr>status_code = 500, detail = not_iterable_msg\<rparr>,
      w\<lparr>stdout := stdout w @ [format_exc L (TypeError not_iterable_msg)]\<rparr>)"
  by (simp add: translate_def except_http_500_def translate_body_function_binding [OF assms]
      TypeError_def)

lemma fill_mask_function_binding:
  assumes "globals w ''supported_languages'' = Some (PyFunction f)"
  shows "fill_mask L text src k w =
     (Inl \<lparr>status_code = 500, detail = not_iterable_msg\<rparr>,
      w\<lparr>stdout := stdout w @ [format_exc L (TypeError not_iterable_msg)]\<rparr>)"
  by (simp add: fill_mask_def except_http_500_def fill_mask_body_function_binding [OF assms]
      TypeError_def)

lemma not_iterable_msg_text:
  "not_iterable_msg =
     ''argument of type '' @ [CHR 0x27] @ ''function'' @ [CHR 0x27] @ '' is not iterable''"
  by (simp add: not_iterable_msg_def)

section \<open>Frame rules\<close>

lemma bindP_frame:
  assumes c: "\<And>w. R w (snd (c w))"
    and f: "\<And>x w. R w (snd (f x w))"
    and tr: "\<And>a b d. R a b \<Longrightarrow> R b d \<Longrightarrow> R a d"
  shows "R w (snd (bindP c f w))"
proof (cases "c w")
  case (Pair r w')
  then have step: "R w w'" using c [of w] by simp
  show ?thesis
  proof (cases r)
    case (Inl e)
    with Pair step show ?thesis by (simp add: bindP_def)
  next
    case (Inr x)
    with Pair have "snd (bindP c f w) = snd (f x w')" by (simp add: bindP_def)
    with step f [of w' x] tr show ?thesis by metis
  qed
qed

lemma except_http_500_frame:
  assumes "R w (snd (body w))"
    and "\<And>w' out. R w w' \<Longrightarrow> R w (w'\<lparr>stdout := out\<rparr>)"
  shows "R w (snd (except_http_500 L body w))"
proof (cases "body w")
  case (Pair r w')
  with assms show ?thesis
    by (cases r) (simp_all add: except_http_500_def)
qed

lemma shared_unchanged_refl: "shared_unchanged w w"
  by (simp add: shared_unchanged_def)

lemma shared_unchanged_trans:
  "shared_unchanged a b \<Longrightarrow> shared_unchanged b d \<Longrightarrow> shared_unchanged a d"
  by (simp add: shared_unchanged_def)

lemma bindP_shared_unchanged:
  assumes "\<And>w. shared_unchanged w (snd (c w))"
    and "\<And>x w. shared_unchanged w (snd (f x w))"
  shows "shared_unchanged w (snd (bindP c f w))"
  by (rule bindP_frame [where R = shared_unchanged, OF assms(1) assms(2) shared_unchanged_trans])

lemma if_frame:
  "R w (snd (a w)) \<Longrightarrow> R w (snd (b w)) \<Longrightarrow> R w (snd ((if c then a else b) w))"
  by simp

lemma case_prod_frame:
  "(\<And>a b. R w (snd (g a b w))) \<Longrightarrow> R w (snd (case_prod g x w))"
  by (cases x) simp

lemma fill_mask_body_frame:
  "shared_unchanged w (snd (fill_mask_body L text src k w))"
  unfolding fill_mask_body_def Let_def
  apply (intro bindP_shared_unchanged if_frame [where R = shared_unchanged]
      case_prod_frame [where R = shared_unchanged])
  apply (simp_all add: load_global_def liftP_def raiseP_def returnP_def library_call_def
      shared_unchanged_def split: option.splits)
  done

lemma fill_mask_frame:
  "shared_unchanged w (snd (fill_mask L text src k w))"
  unfolding fill_mask_def
  by (rule except_http_500_frame [where R = shared_unchanged, OF fill_mask_body_frame])
    (simp add: shared_unchanged_def)

section \<open>The handler of lines 52-54 and 86-88\<close>

lemma except_http_500_raised:
  assumes "except_http_500 L body w = (Inl h, w')"
  shows "\<exists>e w1. body w = (Inl e, w1)
      \<and> h = \<lparr>status_code = 500, detail = exn_msg e\<rparr>
      \<and> w' = w1\<lparr>stdout := stdout w1 @ [format_exc L e]\<rparr>"
proof (cases "body w")
  case (Pair r w1)
  show ?thesis
  proof (cases r)
    case (Inl e)
    with Pair assms show ?thesis by (auto simp add: except_http_500_def)
  next
    case (Inr x)
    with Pair assms show ?thesis by (simp add: except_http_500_def)
  qed
qed

lemma except_http_500_catches:
  assumes "body w = (Inl e, w1)"
  shows "except_http_500 L body w =
     (Inl \<lparr>status_code = 500, detail = exn_msg e\<rparr>,
      w1\<lparr>stdout := stdout w1 @ [format_exc L e]\<rparr>)"
  using assms by (simp add: except_http_500_def)

section \<open>The operations before line 92 rebinds the name\<close>

text \<open>In the state after line 20 the checks find the list: an unsupported code is
  reported by the message of line 38, and with supported codes both bodies run to their
  end through the library calls of lines 46-51 and 75-84.\<close>

lemma translate_before_rebinding_unsupported:
  "fst (translate demo_library (Single ''Hello'') ''xx_XX'' ''en_XX''
          (after_line_20 () demo_tokenizer))
     = Inl \<lparr>status_code = 500, detail = ''Unsupported source language: xx_XX''\<rparr>"
  by (simp add: translate_def except_http_500_def translate_body_def bindP_def
      load_global_def liftP_def raiseP_def after_line_20_binding demo_tokenizer_def
      ValueError_def)

lemma translate_before_rebinding_supported:
  "fst (translate demo_library (Batch [''Hello'', ''you'']) ''en_XX'' ''fr_XX''
          (after_line_20 () (demo_tokenizer\<lparr>src_lang := ''de_DE''\<rparr>)))
     = Inr ['' tok5'', '' tok3'']"
  "calls (snd (translate demo_library (Batch [''Hello'', ''you'']) ''en_XX'' ''fr_XX''
          (after_line_20 () (demo_tokenizer\<lparr>src_lang := ''de_DE''\<rparr>))))
     = [TokenizerCall [''Hello'', ''you''] True,
        GenerateCall \<lparr>input_ids = [[5], [3]], attention_mask = [[1], [1]]\<rparr> 250008,
        BatchDecodeCall [[250008, 5], [250008, 3]]]"
  by code_simp+

lemma fill_mask_before_rebinding_supported:
  "fst (fill_mask demo_library ''Paris is the <mask> of France'' ''en_XX'' 2
          (after_line_20 () demo_tokenizer))
     = Inr [''tok0'', ''tok2'']"
  "calls (snd (fill_mask demo_library ''Paris is the <mask> of France'' ''en_XX'' 2
          (after_line_20 () demo_tokenizer)))
     = [TokenizerCall [''</s> Paris is the <mask> of France </s> en_XX''] False,
        ForwardCall [[4, 5, 2, 3, 250053, 2, 6, 4, 5]],
        DecodeCall [0, 2]]"
  by code_simp+

lemma fill_mask_before_rebinding_no_mask:
  "fst (fill_mask demo_library ''Paris is nice'' ''en_XX'' 2 (after_line_20 () demo_tokenizer))
     = Inl \<lparr>status_code = 500,
            detail = ''a Tensor with 0 elements cannot be converted to Scalar''\<rparr>"
  by code_simp

section \<open>What a call that returns has done\<close>



lemma translate_body_effect:
  "globals (snd (translate_body L text src tgt w)) = globals w
   \<and> model (snd (translate_body L text src tgt w)) = model w
   \<and> tokenizer (snd (translate_body L text src tgt w))
       = (if language_checks_pass w src tgt then (tokenizer w)\<lparr>src_lang := src\<rparr>
          else tokenizer w)"
  by (auto simp add: translate_body_def bindP_def load_global_def liftP_def raiseP_def
      set_src_lang_def library_call_def language_checks_pass_def Let_def
      split: option.splits pyval.splits sum.splits prod.splits)



section \<open>Splitting a text made of token texts\<close>










section \<open>The effect of the operations on the shared state\<close>


lemma except_http_500_shared:
  "globals (snd (except_http_500 L body w)) = globals (snd (body w))"
  "model (snd (except_http_500 L body w)) = model (snd (body w))"
  "tokenizer (snd (except_http_500 L body w)) = tokenizer (snd (body w))"
  "calls (snd (except_http_500 L body w)) = calls (snd (body w))"
  by (cases "body w"; cases "fst (body w)"; simp add: except_http_500_def)+

lemma translate_effect:
  "globals (snd (translate L text src tgt w)) = globals w"
  "model (snd (translate L text src tgt w)) = model w"
  "tokenizer (snd (translate L text src tgt w))
     = (if language_checks_pass w src tgt then (tokenizer w)\<lparr>src_lang := src\<rparr>
        else tokenizer w)"
  by (simp_all add: translate_def except_http_500_shared translate_body_effect)

lemma supported_languages_state: "snd (supported_languages w) = w"
  by (simp add: supported_languages_def load_global_def split: option.splits)

lemma language_checks_fail_after_init:
  "jaseci_action L (PyFunction ''supported_languages'') = PyFunction ''supported_languages''
   \<Longrightarrow> \<not> language_checks_pass (module_init L m tk) src tgt"
  by (simp add: language_checks_pass_def module_init_binding)

lemma before_line_91_binding:
  "globals (before_line_91 L m tk) ''supported_languages''
     = Some (PyList (map fst (lang_code_to_id tk)))"
  by (simp add: before_line_91_def decorated_def_def assign_global_def after_line_20_def)

lemma init_tokenizer:
  "tokenizer (before_line_91 L m tk) = tk"
  "tokenizer (module_init L m tk) = tk"
  by (simp_all add: module_init_def before_line_91_def decorated_def_def assign_global_def
      after_line_20_def)

section \<open>The stand-in library keeps the contracts\<close>








section \<open>The claims\<close>

text \<open>
  C1, at \<^verbatim>\<open>translate("Hello", "xx_XX", "en_XX")\<close> and \<^verbatim>\<open>translate("Hello", "en_XX",
  "xx_XX")\<close> in the initialised module, where \<^verbatim>\<open>xx_XX\<close> is not a key of the language
  table: the call ends in the HTTP exception with status 500 whose detail is the message
  of the \<^verbatim>\<open>TypeError\<close> of the membership test, not the unsupported-language message of
  lines 38 and 40. No call into the library is made.
\<close>

theorem translate_unsupported_language_reports_type_error:
  "''xx_XX'' \<notin> set (map fst (lang_code_to_id demo_tokenizer))
   \<and> translate demo_library (Single ''Hello'') ''xx_XX'' ''en_XX'' loaded =
      (Inl \<lparr>status_code = 500, detail = not_iterable_msg\<rparr>,
       loaded\<lparr>stdout := [format_exc demo_library (TypeError not_iterable_msg)]\<rparr>)
   \<and> translate demo_library (Single ''Hello'') ''en_XX'' ''xx_XX'' loaded =
      (Inl \<lparr>status_code = 500, detail = not_iterable_msg\<rparr>,
       loaded\<lparr>stdout := [format_exc demo_library (TypeError not_iterable_msg)]\<rparr>)
   \<and> calls (loaded\<lparr>stdout := [format_exc demo_library (TypeError not_iterable_msg)]\<rparr>) = []
   \<and> not_iterable_msg \<noteq> ''Unsupported source language: xx_XX''
   \<and> not_iterable_msg \<noteq> ''Unsupported target language: xx_XX''"
  by (simp add: translate_function_binding [OF loaded_binding] loaded_stdout loaded_calls
      demo_tokenizer_def not_iterable_msg_def)

text \<open>
  C2. Once the module is initialised, the name \<^verbatim>\<open>supported_languages\<close>, bound at line 20
  to the list of language codes, is bound to the function of lines 91-99 (the decorator
  returning the function it is given). In every state with these global bindings and for
  every argument tuple, the membership test of line 37 raises \<^verbatim>\<open>TypeError\<close>; the call
  ends in the HTTP exception with status 500 and that message, having printed the trace,
  made no call into the library and changed nothing else. \<^verbatim>\<open>translate\<close> never returns
  normally.
\<close>

theorem translate_never_returns_after_init:
  assumes "jaseci_action L (PyFunction ''supported_languages'') = PyFunction ''supported_languages''"
  shows "globals (after_line_20 m tk) ''supported_languages''
           = Some (PyList (map fst (lang_code_to_id tk)))
       \<and> globals (module_init L m tk) ''supported_languages''
           = Some (PyFunction ''supported_languages'')
       \<and> (\<forall>w text src tgt. globals w = globals (module_init L m tk) \<longrightarrow>
            translate_body L text src tgt w = (Inl (TypeError not_iterable_msg), w)
          \<and> translate L text src tgt w =
              (Inl \<lparr>status_code = 500, detail = not_iterable_msg\<rparr>,
               w\<lparr>stdout := stdout w @ [format_exc L (TypeError not_iterable_msg)]\<rparr>))"
proof -
  have init: "globals (module_init L m tk) ''supported_languages''
      = Some (PyFunction ''supported_languages'')"
    using assms by (simp add: module_init_binding)
  have "translate_body L t src tgt w = (Inl (TypeError not_iterable_msg), w)
      \<and> translate L t src tgt w =
          (Inl \<lparr>status_code = 500, detail = not_iterable_msg\<rparr>,
           w\<lparr>stdout := stdout w @ [format_exc L (TypeError not_iterable_msg)]\<rparr>)"
    if "globals w = globals (module_init L m tk)" for w t src tgt
  proof -
    from that init have "globals w ''supported_languages'' = Some (PyFunction ''supported_languages'')"
      by simp
    then show ?thesis
      by (simp add: translate_body_function_binding translate_function_binding)
  qed
  with init show ?thesis
    by (simp add: after_line_20_binding)
qed

theorem translate_never_returns_after_init_witness:
  "jaseci_action demo_library (PyFunction ''supported_languages'') = PyFunction ''supported_languages''
   \<and> globals (after_line_20 () demo_tokenizer) ''supported_languages''
       = Some (PyList [''en_XX'', ''fr_XX''])
   \<and> globals loaded ''supported_languages'' = Some (PyFunction ''supported_languages'')
   \<and> translate demo_library (Batch [''Hello'']) ''en_XX'' ''fr_XX'' loaded =
       (Inl \<lparr>status_code = 500, detail = not_iterable_msg\<rparr>,
        loaded\<lparr>stdout := [''Traceback (most recent call last): TypeError: '' @ not_iterable_msg]\<rparr>)"
proof -
  have deco: "jaseci_action demo_library (PyFunction ''supported_languages'')
      = PyFunction ''supported_languages''"
    by (simp add: demo_library_def)
  have fmt: "format_exc demo_library (TypeError not_iterable_msg)
      = ''Traceback (most recent call last): TypeError: '' @ not_iterable_msg"
    by (simp add: demo_library_def TypeError_def)
  have tk: "map fst (lang_code_to_id demo_tokenizer) = [''en_XX'', ''fr_XX'']"
    by (simp add: demo_tokenizer_def)
  from translate_never_returns_after_init [OF deco, of "()" demo_tokenizer]
  show ?thesis
    using deco fmt tk by (simp add: loaded_def [symmetric] loaded_stdout)
qed

text \<open>
  C3, at \<^verbatim>\<open>supported_languages()\<close> in the initialised module: the call returns the
  function object that the name is bound to, not the list of language codes built at
  line 20.
\<close>

theorem supported_languages_returns_function:
  "supported_languages loaded = (Inr (PyFunction ''supported_languages''), loaded)
   \<and> fst (supported_languages loaded) \<noteq> Inr (PyList (map fst (lang_code_to_id demo_tokenizer)))
   \<and> fst (supported_languages (after_line_20 () demo_tokenizer))
       = Inr (PyList [''en_XX'', ''fr_XX''])"
  by (simp add: supported_languages_def load_global_def loaded_binding after_line_20_binding
      demo_tokenizer_def)

text \<open>
  C4. Every failing call of \<^verbatim>\<open>translate\<close> or \<^verbatim>\<open>fill_mask\<close> fails with an HTTP exception
  whose status is 500 and whose detail is the message of the exception that the body
  raised, and the trace of that exception has been printed; and every exception the body
  raises, whichever statement raised it, ends this way. No other status is produced.
\<close>

theorem failures_surface_as_http_500:
  "(\<forall>h w'. translate L text src tgt w = (Inl h, w') \<longrightarrow>
      (\<exists>e w1. translate_body L text src tgt w = (Inl e, w1)
         \<and> h = \<lparr>status_code = 500, detail = exn_msg e\<rparr>
         \<and> w' = w1\<lparr>stdout := stdout w1 @ [format_exc L e]\<rparr>))
   \<and> (\<forall>e w1. translate_body L text src tgt w = (Inl e, w1) \<longrightarrow>
        translate L text src tgt w =
          (Inl \<lparr>status_code = 500, detail = exn_msg e\<rparr>,
           w1\<lparr>stdout := stdout w1 @ [format_exc L e]\<rparr>))
   \<and> (\<forall>h w'. fill_mask L mtext msrc k w = (Inl h, w') \<longrightarrow>
        (\<exists>e w1. fill_mask_body L mtext msrc k w = (Inl e, w1)
           \<and> h = \<lparr>status_code = 500, detail = exn_msg e\<rparr>
           \<and> w' = w1\<lparr>stdout := stdout w1 @ [format_exc L e]\<rparr>))
   \<and> (\<forall>e w1. fill_mask_body L mtext msrc k w = (Inl e, w1) \<longrightarrow>
        fill_mask L mtext msrc k w =
          (Inl \<lparr>status_code = 500, detail = exn_msg e\<rparr>,
           w1\<lparr>stdout := stdout w1 @ [format_exc L e]\<rparr>))"
proof (intro conjI allI impI)
  fix h w'
  assume "translate L text src tgt w = (Inl h, w')"
  then show "\<exists>e w1. translate_body L text src tgt w = (Inl e, w1)
      \<and> h = \<lparr>status_code = 500, detail = exn_msg e\<rparr>
      \<and> w' = w1\<lparr>stdout := stdout w1 @ [format_exc L e]\<rparr>"
    unfolding translate_def by (rule except_http_500_raised)
next
  fix e w1
  assume "translate_body L text src tgt w = (Inl e, w1)"
  then show "translate L text src tgt w =
      (Inl \<lparr>status_code = 500, detail = exn_msg e\<rparr>,
       w1\<lparr>stdout := stdout w1 @ [format_exc L e]\<rparr>)"
    unfolding translate_def by (rule except_http_500_catches)
next
  fix h w'
  assume "fill_mask L mtext msrc k w = (Inl h, w')"
  then show "\<exists>e w1. fill_mask_body L mtext msrc k w = (Inl e, w1)
      \<and> h = \<lparr>status_code = 500, detail = exn_msg e\<rparr>
      \<and> w' = w1\<lparr>stdout := stdout w1 @ [format_exc L e]\<rparr>"
    unfolding fill_mask_def by (rule except_http_500_raised)
next
  fix e w1
  assume "fill_mask_body L mtext msrc k w = (Inl e, w1)"
  then show "fill_mask L mtext msrc k w =
      (Inl \<lparr>status_code = 500, detail = exn_msg e\<rparr>,
       w1\<lparr>stdout := stdout w1 @ [format_exc L e]\<rparr>)"
    unfolding fill_mask_def by (rule except_http_500_catches)
qed

theorem failures_surface_as_http_500_witness:
  "translate demo_library (Single ''Hello'') ''en_XX'' ''fr_XX'' loaded =
      (Inl \<lparr>status_code = 500, detail = not_iterable_msg\<rparr>,
       loaded\<lparr>stdout := [format_exc demo_library (TypeError not_iterable_msg)]\<rparr>)
   \<and> (\<exists>e w1. translate_body demo_library (Single ''Hello'') ''en_XX'' ''fr_XX'' loaded
               = (Inl e, w1)
         \<and> \<lparr>status_code = 500, detail = not_iterable_msg\<rparr>
               = \<lparr>status_code = 500, detail = exn_msg e\<rparr>
         \<and> loaded\<lparr>stdout := [format_exc demo_library (TypeError not_iterable_msg)]\<rparr>
               = w1\<lparr>stdout := stdout w1 @ [format_exc demo_library e]\<rparr>)
   \<and> fill_mask demo_library ''Paris is the <mask> of France'' ''en_XX'' 2 loaded =
      (Inl \<lparr>status_code = 500, detail = not_iterable_msg\<rparr>,
       loaded\<lparr>stdout := [format_exc demo_library (TypeError not_iterable_msg)]\<rparr>)"
proof -
  note all = failures_surface_as_http_500
    [of demo_library "Single ''Hello''" "''en_XX''" "''fr_XX''" loaded
        "''Paris is the <mask> of France''" "''en_XX''" 2]
  have t: "translate demo_library (Single ''Hello'') ''en_XX'' ''fr_XX'' loaded =
      (Inl \<lparr>status_code = 500, detail = not_iterable_msg\<rparr>,
       loaded\<lparr>stdout := [format_exc demo_library (TypeError not_iterable_msg)]\<rparr>)"
    by (simp add: translate_function_binding [OF loaded_binding] loaded_stdout)
  have raised: "\<exists>e w1. translate_body demo_library (Single ''Hello'') ''en_XX'' ''fr_XX'' loaded
               = (Inl e, w1)
         \<and> \<lparr>status_code = 500, detail = not_iterable_msg\<rparr>
               = \<lparr>status_code = 500, detail = exn_msg e\<rparr>
         \<and> loaded\<lparr>stdout := [format_exc demo_library (TypeError not_iterable_msg)]\<rparr>
               = w1\<lparr>stdout := stdout w1 @ [format_exc demo_library e]\<rparr>"
    by (rule all [THEN conjunct1, THEN spec, THEN spec, THEN mp, OF t])
  have fb: "fill_mask_body demo_library ''Paris is the <mask> of France'' ''en_XX'' 2 loaded
      = (Inl (TypeError not_iterable_msg), loaded)"
    by (rule fill_mask_body_function_binding [OF loaded_binding])
  have "fill_mask demo_library ''Paris is the <mask> of France'' ''en_XX'' 2 loaded =
      (Inl \<lparr>status_code = 500, detail = exn_msg (TypeError not_iterable_msg)\<rparr>,
       loaded\<lparr>stdout := stdout loaded @ [format_exc demo_library (TypeError not_iterable_msg)]\<rparr>)"
    by (rule all [THEN conjunct2, THEN conjunct2, THEN conjunct2, THEN spec, THEN spec,
          THEN mp, OF fb])
  then have f: "fill_mask demo_library ''Paris is the <mask> of France'' ''en_XX'' 2 loaded =
      (Inl \<lparr>status_code = 500, detail = not_iterable_msg\<rparr>,
       loaded\<lparr>stdout := [format_exc demo_library (TypeError not_iterable_msg)]\<rparr>)"
    by (simp only: loaded_stdout TypeError_def exn.sel append_Nil)
  from t raised f show ?thesis by (intro conjI)
qed

text \<open>
  C5. For every string \<open>s\<close>, all language codes and every state, \<^verbatim>\<open>translate(s, a, b)\<close>
  and \<^verbatim>\<open>translate([s], a, b)\<close> have the same outcome (the same result or the same
  exception) and leave the same state: line 43 turns the string into the one-element list.
\<close>

theorem translate_single_equals_batch:
  "translate L (Single s) a b w = translate L (Batch [s]) a b w"
  by (simp add: translate_def translate_body_def Let_def cong: if_cong)





text \<open>
  C8, at \<^verbatim>\<open>fill_mask("Paris is nice", "en_XX", 2)\<close> (no mask token) and
  \<^verbatim>\<open>fill_mask("<mask> or <mask>", "en_XX", 2)\<close> (two) in the initialised module: the call
  ends in the HTTP exception with status 500, raised for the \<^verbatim>\<open>TypeError\<close> of the
  language check of line 71; the text is never encoded, so the position lookup of line 81
  is not reached and raises nothing.
\<close>

theorem fill_mask_fails_before_position_lookup:
  "fill_mask demo_library ''Paris is nice'' ''en_XX'' 2 loaded =
      (Inl \<lparr>status_code = 500, detail = not_iterable_msg\<rparr>,
       loaded\<lparr>stdout := [format_exc demo_library (TypeError not_iterable_msg)]\<rparr>)
   \<and> fill_mask demo_library ''<mask> or <mask>'' ''en_XX'' 2 loaded =
      (Inl \<lparr>status_code = 500, detail = not_iterable_msg\<rparr>,
       loaded\<lparr>stdout := [format_exc demo_library (TypeError not_iterable_msg)]\<rparr>)
   \<and> fill_mask_body demo_library ''Paris is nice'' ''en_XX'' 2 loaded
       = (Inl (TypeError not_iterable_msg), loaded)
   \<and> calls (loaded\<lparr>stdout := [format_exc demo_library (TypeError not_iterable_msg)]\<rparr>) = []"
  by (simp add: fill_mask_function_binding [OF loaded_binding]
      fill_mask_body_function_binding [OF loaded_binding] loaded_stdout loaded_calls)

text \<open>
  C9, at \<^verbatim>\<open>fill_mask("Paris is the <mask> of France", "en_XX", 2)\<close> with the supported
  code \<^verbatim>\<open>en_XX\<close> in the initialised module: the call ends in the HTTP exception with
  status 500 and has made no call into the library: the text is not encoded, no forward
  pass is run and nothing is decoded.
\<close>

theorem fill_mask_supported_language_runs_no_step:
  "''en_XX'' \<in> set (map fst (lang_code_to_id demo_tokenizer))
   \<and> fst (fill_mask demo_library ''Paris is the <mask> of France'' ''en_XX'' 2 loaded)
       = Inl \<lparr>status_code = 500, detail = not_iterable_msg\<rparr>
   \<and> calls (snd (fill_mask demo_library ''Paris is the <mask> of France'' ''en_XX'' 2 loaded))
       = []"
  by (simp add: fill_mask_function_binding [OF loaded_binding] loaded_calls demo_tokenizer_def)

text \<open>
  C10, at \<^verbatim>\<open>translate("Hello", "fr_XX", "en_XX")\<close> in the imported module, the
  tokenizer's \<^verbatim>\<open>src_lang\<close> being \<^verbatim>\<open>de_DE\<close> before the call: the tokenizer is as it was
  after the call, \<^verbatim>\<open>src_lang\<close> has not been set to \<^verbatim>\<open>fr_XX\<close>. Before line 91 the same
  call sets it. (That nothing else of the shared state changes, in any state, and that
  \<^verbatim>\<open>fill_mask\<close> and \<^verbatim>\<open>supported_languages\<close> change none of it, are the lemmas
  \<open>translate_effect\<close>, \<open>fill_mask_frame\<close> and \<open>supported_languages_state\<close>.)
\<close>

theorem translate_leaves_src_lang_unwritten:
  "src_lang (tokenizer (module_init demo_library () (demo_tokenizer\<lparr>src_lang := ''de_DE''\<rparr>)))
     = ''de_DE''
   \<and> tokenizer (snd (translate demo_library (Single ''Hello'') ''fr_XX'' ''en_XX''
        (module_init demo_library () (demo_tokenizer\<lparr>src_lang := ''de_DE''\<rparr>))))
     = demo_tokenizer\<lparr>src_lang := ''de_DE''\<rparr>
   \<and> src_lang (tokenizer (snd (translate demo_library (Single ''Hello'') ''fr_XX'' ''en_XX''
        (before_line_91 demo_library () (demo_tokenizer\<lparr>src_lang := ''de_DE''\<rparr>)))))
     = ''fr_XX''"
proof -
  have deco: "jaseci_action demo_library (PyFunction ''supported_languages'')
      = PyFunction ''supported_languages''"
    by (simp add: demo_library_def)
  have pass: "language_checks_pass
      (before_line_91 demo_library () (demo_tokenizer\<lparr>src_lang := ''de_DE''\<rparr>))
      ''fr_XX'' ''en_XX''"
    by (simp add: language_checks_pass_def before_line_91_binding demo_tokenizer_def)
  show ?thesis
    by (simp add: translate_effect language_checks_fail_after_init [OF deco] pass init_tokenizer)
qed

end
